theory Spec2Isabelle
  imports Main
begin

text \<open>
  A model of the messaging backend: the Socket.IO handlers for sending, read receipts,
  history, editing and connecting (\<open>socket/handlers/messageHandler.js\<close>,
  \<open>socket/index.js\<close>) and the routes that do the same work over HTTP
  (\<open>routes/messages.js\<close>), over an explicit store. A handler is a function from its
  arguments and the store to the store it leaves and the list of its effects, in the order
  of the source.
\<close>

section \<open>JavaScript values used by the handlers\<close>

text \<open>
  Event payload fields and request parameters are strings that may be missing. A missing
  field (\<open>undefined\<close>) is \<open>None\<close>. Characters are code units below 256.
\<close>

definition js_String :: "string option \<Rightarrow> string" where
  \<comment> \<open>\<open>String(x)\<close>\<close>
  "js_String x = (case x of None \<Rightarrow> ''undefined'' | Some s \<Rightarrow> s)"

definition is_space :: "char \<Rightarrow> bool" where
  \<comment> \<open>the white space and line terminator code units that \<open>String.prototype.trim\<close> strips\<close>
  "is_space c =
     (c = CHR 0x09 \<or> c = CHR 0x0A \<or> c = CHR 0x0B \<or> c = CHR 0x0C \<or> c = CHR 0x0D
      \<or> c = CHR 0x20 \<or> c = CHR 0xA0)"

definition trim :: "string \<Rightarrow> string" where
  "trim s = rev (dropWhile is_space (rev (dropWhile is_space s)))"


section \<open>What the database accepts\<close>

text \<open>
  The id columns have type \<open>uuid\<close> and the content columns type \<open>text\<close>. A query
  parameter for a \<open>uuid\<close> column is read by PostgreSQL's uuid input: 32 hexadecimal
  digits in either case, with an optional hyphen after any group of four digits, the whole
  optionally in braces. Two texts that denote the same uuid are the same id; the value is
  kept here in the form in which the database returns it, lower case in groups of
  8-4-4-4-12. Any other text makes the query throw (invalid input syntax for type uuid), and
  so does a \<open>text\<close> parameter that contains the code unit 0 (invalid byte sequence).
\<close>

datatype db_error = InvalidUuid | InvalidByteSequence | NotNullViolation

definition is_xdigit :: "char \<Rightarrow> bool" where
  "is_xdigit c = (c \<in> set ''0123456789abcdefABCDEF'')"

definition to_lower :: "char \<Rightarrow> char" where
  "to_lower c = (case map_of (zip ''ABCDEF'' ''abcdef'') c of None \<Rightarrow> c | Some l \<Rightarrow> l)"

fun uuid_digits :: "nat \<Rightarrow> string \<Rightarrow> (string \<times> string) option" where
  \<comment> \<open>reads \<open>n\<close> more bytes of two digits each and returns their digits in lower case with
      the text left over; of the 16 bytes, a hyphen may follow the second, the fourth, and so
      on up to the fourteenth\<close>
  "uuid_digits 0 src = Some ([], src)"
| "uuid_digits (Suc n) (a # b # src) =
     (if is_xdigit a \<and> is_xdigit b
      then (case uuid_digits n (if even n \<and> 0 < n \<and> take 1 src = ''-'' then drop 1 src else src) of
              None \<Rightarrow> None
            | Some (ds, rest) \<Rightarrow> Some (to_lower a # to_lower b # ds, rest))
      else None)"
| "uuid_digits (Suc n) src = None"

definition uuid_out :: "string \<Rightarrow> string" where
  "uuid_out ds =
     take 8 ds @ ''-'' @ take 4 (drop 8 ds) @ ''-'' @ take 4 (drop 12 ds) @ ''-''
     @ take 4 (drop 16 ds) @ ''-'' @ drop 20 ds"

definition uuid_in :: "string \<Rightarrow> string option" where
  \<comment> \<open>the id a text denotes; \<open>None\<close> where the database refuses the text\<close>
  "uuid_in src =
     (let braces = (take 1 src = ''{'');
          body = (if braces then drop 1 src else src)
      in case uuid_digits 16 body of
           None \<Rightarrow> None
         | Some (ds, rest) \<Rightarrow>
             if rest = (if braces then ''}'' else []) then Some (uuid_out ds) else None)"

definition uuid_array_in :: "string list \<Rightarrow> string list option" where
  \<comment> \<open>a \<open>uuid[]\<close> parameter: every element has to be the text of a uuid\<close>
  "uuid_array_in xs = those (map uuid_in xs)"

definition storable :: "string \<Rightarrow> bool" where
  "storable t = (CHR 0x00 \<notin> set t)"


section \<open>The durable store\<close>

text \<open>
  Tables \<open>users\<close> and \<open>messages\<close> of the schema (initial schema and
  \<open>migrations/002_enhancements.sql\<close>), with the columns the handlers below read or
  write. An id column holds the id as the database returns it. Timestamps are natural
  numbers. A nullable column is an \<open>option\<close>.

  A \<open>query(...)\<close> of the handlers either throws, with a \<open>db_error\<close>, or returns
  rows; what a handler does in its \<open>catch\<close> is the \<open>Inl\<close> branch of the model. The
  id of the caller, \<open>socket.userId\<close> on the live channel and \<open>req.user.id\<close> on the
  routes, is the id of the authenticated user's row as the database returned it, and the
  database reads it back as that id.
\<close>

record user =
  user_id :: string
  username :: string

record message =
  msg_id :: string
  sender_id :: string
  receiver_id :: string
  content :: string
  created_at :: nat
  is_read :: bool
  read_at :: "nat option"
  is_deleted :: bool
  deleted_at :: "nat option"
  is_edited :: bool
  edited_at :: "nat option"
  original_content :: "string option"

record store =
  users :: "user list"
  messages :: "message list"

definition select_user :: "store \<Rightarrow> string \<Rightarrow> db_error + user list" where
  \<comment> \<open>\<open>SELECT id, username FROM users WHERE id = $1\<close>\<close>
  "select_user s id_text =
     (case uuid_in id_text of
        None \<Rightarrow> Inl InvalidUuid
      | Some u \<Rightarrow> Inr (filter (\<lambda>r. user_id r = u) (users s)))"

definition select_message :: "store \<Rightarrow> string \<Rightarrow> db_error + message list" where
  \<comment> \<open>\<open>SELECT ... FROM messages WHERE id = $1\<close>\<close>
  "select_message s id_text =
     (case uuid_in id_text of
        None \<Rightarrow> Inl InvalidUuid
      | Some k \<Rightarrow> Inr (filter (\<lambda>m. msg_id m = k) (messages s)))"

definition insert_message ::
  "string \<Rightarrow> string \<Rightarrow> string \<Rightarrow> nat \<Rightarrow> string \<Rightarrow> store \<Rightarrow> db_error + message \<times> store" where
  \<comment> \<open>\<open>INSERT INTO messages (sender_id, receiver_id, content) VALUES ($1, $2, $3) RETURNING ...\<close>;
      \<open>uuid\<close> is the fresh id \<open>uuid_generate_v4()\<close> yields and \<open>now\<close> is
      \<open>CURRENT_TIMESTAMP\<close>; the other columns take their defaults\<close>
  "insert_message sender receiver_text body now uuid s =
     (case uuid_in receiver_text of
        None \<Rightarrow> Inl InvalidUuid
      | Some receiver \<Rightarrow>
          if \<not> storable body then Inl InvalidByteSequence
          else
            (let row = \<lparr>msg_id = uuid, sender_id = sender, receiver_id = receiver,
                        content = body, created_at = now, is_read = False, read_at = None,
                        is_deleted = False, deleted_at = None,
                        is_edited = False, edited_at = None, original_content = None\<rparr>
             in Inr (row, s\<lparr>messages := messages s @ [row]\<rparr>)))"

definition update_read :: "nat \<Rightarrow> string list \<Rightarrow> string \<Rightarrow> store \<Rightarrow> db_error + store" where
  \<comment> \<open>\<open>UPDATE messages SET is_read = true, read_at = $1
      WHERE id = ANY($2) AND receiver_id = $3 AND is_read = false\<close>\<close>
  "update_read readAt messageIds reader s =
     (case uuid_array_in messageIds of
        None \<Rightarrow> Inl InvalidUuid
      | Some ids \<Rightarrow>
          Inr (s\<lparr>messages :=
                  map (\<lambda>m. if msg_id m \<in> set ids \<and> receiver_id m = reader \<and> is_read m = False
                           then m\<lparr>is_read := True, read_at := Some readAt\<rparr> else m)
                      (messages s)\<rparr>))"

definition update_content ::
  "string option \<Rightarrow> string option \<Rightarrow> string \<Rightarrow> nat \<Rightarrow> store \<Rightarrow> db_error + message list \<times> store" where
  \<comment> \<open>\<open>UPDATE messages SET content = $1, is_edited = true, edited_at = NOW()
      WHERE id = $2 AND sender_id = $3 RETURNING ...\<close>. A missing \<open>messageId\<close> is
      \<open>NULL\<close> and matches no row; a missing \<open>content\<close> is \<open>NULL\<close>, which the
      \<open>NOT NULL\<close> column refuses on any row the update reaches\<close>
  "update_content content_opt messageId sender now s =
     (case (case messageId of None \<Rightarrow> Some None | Some t \<Rightarrow> map_option Some (uuid_in t)) of
        None \<Rightarrow> Inl InvalidUuid
      | Some key \<Rightarrow>
          (let hit = (\<lambda>m. Some (msg_id m) = key \<and> sender_id m = sender)
           in case content_opt of
                None \<Rightarrow> if filter hit (messages s) = [] then Inr ([], s) else Inl NotNullViolation
              | Some body \<Rightarrow>
                  if \<not> storable body then Inl InvalidByteSequence
                  else
                    (let edited = (\<lambda>m. m\<lparr>content := body, is_edited := True, edited_at := Some now\<rparr>)
                     in Inr (map edited (filter hit (messages s)),
                             s\<lparr>messages := map (\<lambda>m. if hit m then edited m else m) (messages s)\<rparr>))))"

definition soft_delete :: "string \<Rightarrow> nat \<Rightarrow> store \<Rightarrow> db_error + store" where
  \<comment> \<open>\<open>UPDATE messages SET is_deleted = true, deleted_at = NOW(), content = '[Message deleted]'
      WHERE id = $1\<close>\<close>
  "soft_delete id_text now s =
     (case uuid_in id_text of
        None \<Rightarrow> Inl InvalidUuid
      | Some k \<Rightarrow>
          Inr (s\<lparr>messages :=
                  map (\<lambda>m. if msg_id m = k
                           then m\<lparr>is_deleted := True, deleted_at := Some now,
                                  content := ''[Message deleted]''\<rparr>
                           else m)
                      (messages s)\<rparr>))"

definition update_edit ::
  "string \<Rightarrow> string \<Rightarrow> string \<Rightarrow> nat \<Rightarrow> store \<Rightarrow> db_error + message list \<times> store" where
  \<comment> \<open>\<open>UPDATE messages SET content = $1, is_edited = true, edited_at = NOW(),
      original_content = COALESCE(original_content, $2) WHERE id = $3 RETURNING ...\<close>\<close>
  "update_edit body before_edit id_text now s =
     (case uuid_in id_text of
        None \<Rightarrow> Inl InvalidUuid
      | Some k \<Rightarrow>
          if \<not> storable body \<or> \<not> storable before_edit then Inl InvalidByteSequence
          else
            (let edited = (\<lambda>m. m\<lparr>content := body, is_edited := True, edited_at := Some now,
                                  original_content :=
                                    (case original_content m of
                                       None \<Rightarrow> Some before_edit
                                     | Some orig \<Rightarrow> Some orig)\<rparr>)
             in Inr (map edited (filter (\<lambda>m. msg_id m = k) (messages s)),
                     s\<lparr>messages := map (\<lambda>m. if msg_id m = k then edited m else m) (messages s)\<rparr>)))"

definition joined :: "store \<Rightarrow> (message \<times> string) list" where
  \<comment> \<open>\<open>FROM messages m JOIN users u ON m.sender_id = u.id\<close>, each row with
      \<open>u.username as sender_username\<close>\<close>
  "joined s =
     concat (map (\<lambda>m. map (\<lambda>u. (m, username u)) (filter (\<lambda>u. user_id u = sender_id m) (users s)))
                 (messages s))"

definition history_query ::
  "store \<Rightarrow> string \<Rightarrow> string \<Rightarrow> nat option \<Rightarrow> nat \<Rightarrow> (message \<times> string) list" where
  \<comment> \<open>the rows of the history query for a partner id the database has read:
      \<open>WHERE ((m.sender_id = $1 AND m.receiver_id = $2) OR (m.sender_id = $2 AND m.receiver_id = $1))\<close>,
      \<open>AND m.created_at < $3\<close> when the cursor \<open>before\<close> is given,
      \<open>ORDER BY m.created_at DESC LIMIT $n\<close>; among rows of equal \<open>created_at\<close> the
      database is free to choose the order, and the model takes the reverse of a stable sort\<close>
  "history_query s uid partner before lim =
     take lim (rev (sort_key (\<lambda>r. created_at (fst r))
       (filter (\<lambda>r. ((sender_id (fst r) = uid \<and> receiver_id (fst r) = partner)
                        \<or> (sender_id (fst r) = partner \<and> receiver_id (fst r) = uid))
                     \<and> (case before of None \<Rightarrow> True | Some b \<Rightarrow> created_at (fst r) < b))
               (joined s))))"

definition select_history ::
  "store \<Rightarrow> string \<Rightarrow> string \<Rightarrow> nat option \<Rightarrow> nat \<Rightarrow> db_error + (message \<times> string) list" where
  \<comment> \<open>the history query as the handlers issue it, with the partner id as text; the cursor
      is a timestamp and the limit a natural number\<close>
  "select_history s uid partnerId before lim =
     (case uuid_in partnerId of
        None \<Rightarrow> Inl InvalidUuid
      | Some partner \<Rightarrow> Inr (history_query s uid partner before lim))"

section \<open>The live channel\<close>

text \<open>
  \<open>msg_view\<close> is the message object the handlers build from a returned row. An
  \<open>effect\<close> is something a handler does that is visible outside it, in the order the
  handler does it: a row inserted, the acknowledgement callback called, an event emitted to
  the room of a socket id.

  The events, with their payloads: \<open>message_error {tempId, error}\<close>,
  \<open>message_sent {tempId, message}\<close>, \<open>receive_message {message}\<close>,
  \<open>messages_read {messageIds, readAt, readBy}\<close>,
  \<open>message_updated {id, content, isEdited, senderId}\<close>, \<open>user_online {userId, username}\<close>
  and \<open>connected {userId, username, connectedAt}\<close>. A \<open>cursor\<close> is \<open>null\<close>,
  \<open>undefined\<close> or a timestamp. An \<open>ack\<close> is what the callback is called with:
  \<open>{tempId, error}\<close>, \<open>{success: true, tempId, message}\<close>, \<open>{error}\<close> or
  \<open>{success: true, messages, hasMore, nextCursor}\<close>.
\<close>

record msg_view =
  v_id :: string
  v_senderId :: string
  v_receiverId :: string
  v_content :: string
  v_createdAt :: nat
  v_isRead :: bool
  v_readAt :: "nat option"
  v_senderUsername :: string

datatype event =
    MessageError "string option" string
  | MessageSent "string option" msg_view
  | ReceiveMessage msg_view
  | MessagesRead "string list" nat string
  | MessageUpdated "string option" "string option" bool string
  | UserOnline string string
  | Connected string string nat

datatype cursor = CursorNull | CursorUndefined | CursorAt nat

datatype page = Page (page_messages: "msg_view list") (hasMore: bool) (nextCursor: cursor)

datatype ack =
    AckError "string option" string
  | AckSent "string option" msg_view
  | AckFailure string
  | AckHistory page

datatype effect =
    Stored message
  | Callback ack
  | Emit string event

record socket =
  sock_id :: string
  userId :: string
  sock_username :: string

definition view :: "message \<Rightarrow> string \<Rightarrow> msg_view" where
  "view row uname =
     \<lparr>v_id = msg_id row, v_senderId = sender_id row, v_receiverId = receiver_id row,
      v_content = content row, v_createdAt = created_at row, v_isRead = is_read row,
      v_readAt = read_at row, v_senderUsername = uname\<rparr>"

definition call :: "bool \<Rightarrow> ack \<Rightarrow> effect list" where
  \<comment> \<open>\<open>if (callback) callback(x)\<close>\<close>
  "call callback x = (if callback then [Callback x] else [])"

definition reject :: "socket \<Rightarrow> bool \<Rightarrow> string option \<Rightarrow> string \<Rightarrow> effect list" where
  \<comment> \<open>\<open>const error = { tempId, error: msg }; if (callback) callback(error);
      socket.emit('message_error', error); return;\<close>\<close>
  "reject sock callback tempId msg =
     call callback (AckError tempId msg) @ [Emit (sock_id sock) (MessageError tempId msg)]"

definition send_message ::
  "socket \<Rightarrow> (string \<rightharpoonup> string) \<Rightarrow> string option \<Rightarrow> string option \<Rightarrow> string option \<Rightarrow> bool
     \<Rightarrow> nat \<Rightarrow> string \<Rightarrow> store \<Rightarrow> store \<times> effect list" where
  \<comment> \<open>\<open>socket.on('send_message', async (data, callback) => ...)\<close> with
      \<open>const { receiverId, content, tempId } = data\<close>\<close>
  "send_message sock connectedUsers receiverId content_opt tempId callback now uuid s =
     (case (receiverId, content_opt) of
        (Some rid, Some text) \<Rightarrow>
          if rid = [] \<or> text = [] then
            (s, reject sock callback tempId ''Receiver ID and content are required'')
          else if length (trim text) = 0 then
            (s, reject sock callback tempId ''Message content cannot be empty'')
          else if length text > 5000 then
            (s, reject sock callback tempId ''Message too long (max 5000 characters)'')
          else
            (case select_user s rid of
               Inl e \<Rightarrow> (s, reject sock callback tempId ''Failed to send message'')
             | Inr receiverCheck \<Rightarrow>
                 if length receiverCheck = 0 then
                   (s, reject sock callback tempId ''Recipient not found'')
                 else
                   (case insert_message (userId sock) rid (trim text) now uuid s of
                      Inl e \<Rightarrow> (s, reject sock callback tempId ''Failed to send message'')
                    | Inr (row, s') \<Rightarrow>
                        (let message = view row (sock_username sock)
                         in (s', [Stored row]
                                 @ call callback (AckSent tempId message)
                                 @ [Emit (sock_id sock) (MessageSent tempId message)]
                                 @ (case connectedUsers (js_String receiverId) of
                                      Some recipientSocketId \<Rightarrow>
                                        if recipientSocketId \<noteq> []
                                        then [Emit recipientSocketId (ReceiveMessage message)]
                                        else []
                                    | None \<Rightarrow> [])))))
      | _ \<Rightarrow> (s, reject sock callback tempId ''Receiver ID and content are required''))"

definition mark_read ::
  "socket \<Rightarrow> (string \<rightharpoonup> string) \<Rightarrow> string list option \<Rightarrow> string option
     \<Rightarrow> nat \<Rightarrow> store \<Rightarrow> store \<times> effect list" where
  \<comment> \<open>\<open>socket.on('mark_read', async (data) => ...)\<close> with
      \<open>const { messageIds, senderId } = data\<close>; \<open>None\<close> is a missing or non-array
      \<open>messageIds\<close>; \<open>now\<close> is \<open>new Date()\<close>; the \<open>catch\<close> only logs\<close>
  "mark_read sock connectedUsers messageIds senderId now s =
     (case messageIds of
        None \<Rightarrow> (s, [])
      | Some ids \<Rightarrow>
          if length ids = 0 then (s, [])
          else
            (let readAt = now
             in case update_read readAt ids (userId sock) s of
                  Inl e \<Rightarrow> (s, [])
                | Inr s' \<Rightarrow>
                    (s', (case senderId of
                            None \<Rightarrow> []
                          | Some sender \<Rightarrow>
                              if sender = [] then []
                              else (case connectedUsers sender of
                                      None \<Rightarrow> []
                                    | Some senderSocketId \<Rightarrow>
                                        if senderSocketId \<noteq> []
                                        then [Emit senderSocketId
                                                (MessagesRead ids readAt (userId sock))]
                                        else [])))))"

definition page_of :: "(message \<times> string) list \<Rightarrow> nat \<Rightarrow> page" where
  \<comment> \<open>\<open>messages = rows.map(...).reverse(); hasMore = rows.length === limit;
      nextCursor = hasMore ? rows[rows.length - 1]?.created_at : null\<close>\<close>
  "page_of rows lim =
     (let msgs = rev (map (\<lambda>r. view (fst r) (snd r)) rows);
          more = (length rows = lim);
          next_cursor = (if more
                         then (if rows = [] then CursorUndefined
                               else CursorAt (created_at (fst (last rows))))
                         else CursorNull)
      in Page msgs more next_cursor)"

definition get_history ::
  "socket \<Rightarrow> string option \<Rightarrow> nat option \<Rightarrow> nat option \<Rightarrow> bool \<Rightarrow> store \<Rightarrow> effect list" where
  \<comment> \<open>\<open>socket.on('get_history', async (data, callback) => ...)\<close> with
      \<open>const { partnerId, limit = 50, before } = data\<close>; the limit is a number\<close>
  "get_history sock partnerId limit_opt before callback s =
     (case partnerId of
        None \<Rightarrow> call callback (AckFailure ''Partner ID is required'')
      | Some pid \<Rightarrow>
          if pid = [] then call callback (AckFailure ''Partner ID is required'')
          else
            (let lim = (case limit_opt of None \<Rightarrow> 50 | Some l \<Rightarrow> l)
             in case select_history s (userId sock) pid before lim of
                  Inl e \<Rightarrow> call callback (AckFailure ''Failed to fetch message history'')
                | Inr rows \<Rightarrow> call callback (AckHistory (page_of rows lim))))"

definition edit_message ::
  "socket \<Rightarrow> (string \<rightharpoonup> string) \<Rightarrow> string option \<Rightarrow> string option \<Rightarrow> string option
     \<Rightarrow> nat \<Rightarrow> store \<Rightarrow> store \<times> effect list" where
  \<comment> \<open>\<open>socket.on('edit_message', async (data) => ...)\<close> with
      \<open>const { messageId, content, receiverId } = data\<close>; the \<open>catch\<close> only logs\<close>
  "edit_message sock connectedUsers messageId content_opt receiverId now s =
     (case update_content content_opt messageId (userId sock) now s of
        Inl e \<Rightarrow> (s, [])
      | Inr (rows, s') \<Rightarrow>
          if length rows > 0 then
            (s', (case connectedUsers (js_String receiverId) of
                    Some recipientSocketId \<Rightarrow>
                      if recipientSocketId \<noteq> []
                      then [Emit recipientSocketId
                              (MessageUpdated messageId content_opt True (userId sock))]
                      else []
                  | None \<Rightarrow> [])
                 @ [Emit (sock_id sock)
                      (MessageUpdated messageId content_opt True (userId sock))])
          else (s', []))"


section \<open>The request/response routes\<close>

text \<open>
  A route answers with a status code and a JSON body: \<open>{success: false, message}\<close>,
  \<open>{success: true, message}\<close> with a text, \<open>{success: true, readAt}\<close>,
  \<open>{success: true, message}\<close> with the edited message, or the history page
  \<open>{success: true, messages, hasMore, nextCursor, partner: {id, username}}\<close>. The caller
  is \<open>req.user.id\<close>.
\<close>

record edit_view =
  e_id :: string
  e_senderId :: string
  e_receiverId :: string
  e_content :: string
  e_createdAt :: nat
  e_isRead :: bool
  e_isEdited :: bool
  e_editedAt :: "nat option"

datatype body =
    Failure string
  | Done string
  | ReadAt nat
  | EditedMessage edit_view
  | History page string string

datatype reply = Reply (status: nat) (payload: body)

definition rest_get_messages ::
  "string \<Rightarrow> string \<Rightarrow> nat option \<Rightarrow> nat option \<Rightarrow> store \<Rightarrow> reply" where
  \<comment> \<open>\<open>router.get('/:partnerId', ...)\<close>; \<open>limit_opt\<close> is \<open>parseInt(limit, 10)\<close> of the
      query parameter when it is given\<close>
  "rest_get_messages uid partnerId limit_opt before s =
     (case select_user s partnerId of
        Inl e \<Rightarrow> Reply 500 (Failure ''Failed to fetch messages'')
      | Inr [] \<Rightarrow> Reply 404 (Failure ''User not found'')
      | Inr (partner # _) \<Rightarrow>
          (let lim = (case limit_opt of None \<Rightarrow> 50 | Some l \<Rightarrow> l)
           in case select_history s uid partnerId before lim of
                Inl e \<Rightarrow> Reply 500 (Failure ''Failed to fetch messages'')
              | Inr rows \<Rightarrow>
                  Reply 200 (History (page_of rows lim) (user_id partner) (username partner))))"

definition rest_mark_read :: "string \<Rightarrow> string list option \<Rightarrow> nat \<Rightarrow> store \<Rightarrow> reply \<times> store" where
  \<comment> \<open>\<open>router.put('/read', ...)\<close>\<close>
  "rest_mark_read uid messageIds now s =
     (case messageIds of
        None \<Rightarrow> (Reply 400 (Failure ''Message IDs array is required''), s)
      | Some ids \<Rightarrow>
          if length ids = 0 then (Reply 400 (Failure ''Message IDs array is required''), s)
          else
            (let readAt = now
             in case update_read readAt ids uid s of
                  Inl e \<Rightarrow> (Reply 500 (Failure ''Failed to mark messages as read''), s)
                | Inr s' \<Rightarrow> (Reply 200 (ReadAt readAt), s')))"

definition rest_delete_message :: "string \<Rightarrow> string \<Rightarrow> nat \<Rightarrow> store \<Rightarrow> reply \<times> store" where
  \<comment> \<open>\<open>router.delete('/message/:messageId', ...)\<close>\<close>
  "rest_delete_message uid messageId now s =
     (case select_message s messageId of
        Inl e \<Rightarrow> (Reply 500 (Failure ''Failed to delete message''), s)
      | Inr [] \<Rightarrow> (Reply 404 (Failure ''Message not found''), s)
      | Inr (msg # _) \<Rightarrow>
          if sender_id msg \<noteq> uid then
            (Reply 403 (Failure ''You can only delete your own messages''), s)
          else
            (case soft_delete messageId now s of
               Inl e \<Rightarrow> (Reply 500 (Failure ''Failed to delete message''), s)
             | Inr s' \<Rightarrow> (Reply 200 (Done ''Message deleted''), s')))"

definition rest_edit_message ::
  "string \<Rightarrow> string \<Rightarrow> string option \<Rightarrow> nat \<Rightarrow> store \<Rightarrow> reply \<times> store" where
  \<comment> \<open>\<open>router.put('/message/:messageId', ...)\<close>; the update is given the trimmed content
      and, for \<open>COALESCE\<close>, the content read by the check before it\<close>
  "rest_edit_message uid messageId content_opt now s =
     (case content_opt of
        None \<Rightarrow> (Reply 400 (Failure ''Message content is required''), s)
      | Some text \<Rightarrow>
          if text = [] \<or> length (trim text) = 0 then
            (Reply 400 (Failure ''Message content is required''), s)
          else
            (case select_message s messageId of
               Inl e \<Rightarrow> (Reply 500 (Failure ''Failed to edit message''), s)
             | Inr [] \<Rightarrow> (Reply 404 (Failure ''Message not found''), s)
             | Inr (msg # _) \<Rightarrow>
                 if sender_id msg \<noteq> uid then
                   (Reply 403 (Failure ''You can only edit your own messages''), s)
                 else if is_deleted msg then
                   (Reply 400 (Failure ''Cannot edit a deleted message''), s)
                 else
                   (case update_edit (trim text) (content msg) messageId now s of
                      Inl e \<Rightarrow> (Reply 500 (Failure ''Failed to edit message''), s)
                    | Inr ([], s') \<Rightarrow> (Reply 500 (Failure ''Failed to edit message''), s')
                    | Inr (row # _, s') \<Rightarrow>
                        (Reply 200 (EditedMessage
                           \<lparr>e_id = msg_id row, e_senderId = sender_id row,
                            e_receiverId = receiver_id row, e_content = content row,
                            e_createdAt = created_at row, e_isRead = is_read row,
                            e_isEdited = is_edited row, e_editedAt = edited_at row\<rparr>),
                         s'))))"


section \<open>Connections\<close>

text \<open>
  \<open>connectedUsers\<close> is the registry, a map from user id to socket id. \<open>live\<close> lists the
  ids of the sockets connected to the server; \<open>socket.broadcast.emit\<close> reaches each of
  them but the socket itself.
\<close>

definition broadcast_emit :: "socket \<Rightarrow> string list \<Rightarrow> event \<Rightarrow> effect list" where
  "broadcast_emit sock live e = map (\<lambda>sid. Emit sid e) (filter (\<lambda>sid. sid \<noteq> sock_id sock) live)"

definition on_connection ::
  "socket \<Rightarrow> nat \<Rightarrow> string list \<Rightarrow> (string \<rightharpoonup> string) \<Rightarrow> (string \<rightharpoonup> string) \<times> effect list" where
  \<comment> \<open>\<open>io.on('connection', async (socket) => ...)\<close> up to the \<open>connected\<close> event;
      registering the event handlers emits nothing\<close>
  "on_connection sock now live connectedUsers =
     (connectedUsers(userId sock \<mapsto> sock_id sock),
      broadcast_emit sock live (UserOnline (userId sock) (sock_username sock))
      @ [Emit (sock_id sock) (Connected (userId sock) (sock_username sock) now)])"


section \<open>Deliveries\<close>

fun is_delivery :: "effect \<Rightarrow> bool" where
  \<comment> \<open>the effects that hand a sent message over: the sender's acknowledgement (callback
      and \<open>message_sent\<close>) and the push \<open>receive_message\<close>\<close>
  "is_delivery (Callback (AckSent t m)) = True"
| "is_delivery (Emit sid (MessageSent t m)) = True"
| "is_delivery (Emit sid (ReceiveMessage m)) = True"
| "is_delivery e = False"


section \<open>Sample data\<close>

abbreviation alice_id :: string where
  "alice_id \<equiv> ''a11ce000-0000-4000-8000-000000000001''"

abbreviation bob_id :: string where
  "bob_id \<equiv> ''b0b00000-0000-4000-8000-000000000002''"

abbreviation hello_id :: string where
  "hello_id \<equiv> ''c0000000-0000-4000-8000-0000000000a1''"

abbreviation reply_id :: string where
  "reply_id \<equiv> ''d0000000-0000-4000-8000-0000000000a2''"

abbreviation fresh_id :: string where
  "fresh_id \<equiv> ''e0000000-0000-4000-8000-0000000000a9''"

definition alice :: user where
  "alice = \<lparr>user_id = alice_id, username = ''alice''\<rparr>"

definition bob :: user where
  "bob = \<lparr>user_id = bob_id, username = ''bob''\<rparr>"

definition alice_socket :: socket where
  "alice_socket = \<lparr>sock_id = ''s-alice'', userId = alice_id, sock_username = ''alice''\<rparr>"

definition bob_socket :: socket where
  "bob_socket = \<lparr>sock_id = ''s-bob'', userId = bob_id, sock_username = ''bob''\<rparr>"

definition both_online :: "string \<rightharpoonup> string" where
  "both_online = [alice_id \<mapsto> ''s-alice'', bob_id \<mapsto> ''s-bob'']"

definition bob_online :: "string \<rightharpoonup> string" where
  "bob_online = [bob_id \<mapsto> ''s-bob'']"

definition empty_store :: store where
  "empty_store = \<lparr>users = [alice, bob], messages = []\<rparr>"

definition hello :: message where
  \<comment> \<open>a message from alice to bob, as \<open>insert_message\<close> leaves it\<close>
  "hello = \<lparr>msg_id = hello_id, sender_id = alice_id, receiver_id = bob_id, content = ''v1'',
            created_at = 10, is_read = False, read_at = None,
            is_deleted = False, deleted_at = None,
            is_edited = False, edited_at = None, original_content = None\<rparr>"

definition reply_msg :: message where
  "reply_msg = \<lparr>msg_id = reply_id, sender_id = bob_id, receiver_id = alice_id, content = ''hi'',
            created_at = 20, is_read = False, read_at = None,
            is_deleted = False, deleted_at = None,
            is_edited = False, edited_at = None, original_content = None\<rparr>"

definition chat_store :: store where
  "chat_store = \<lparr>users = [alice, bob], messages = [hello, reply_msg]\<rparr>"

definition read_store :: store where
  \<comment> \<open>\<open>chat_store\<close> after bob read \<open>hello\<close> at time 50\<close>
  "read_store = \<lparr>users = [alice, bob],
                  messages = [hello\<lparr>is_read := True, read_at := Some 50\<rparr>, reply_msg]\<rparr>"

definition full_page :: page where
  \<comment> \<open>the two messages of \<open>chat_store\<close>, oldest first, fetched with limit 2\<close>
  "full_page = Page [view hello ''alice'', view reply_msg ''bob''] True (CursorAt 10)"

definition deleted_hello :: message where
  \<comment> \<open>\<open>hello\<close> after its sender deleted it at time 30\<close>
  "deleted_hello = hello\<lparr>is_deleted := True, deleted_at := Some 30, content := ''[Message deleted]''\<rparr>"

definition deleted_store :: store where
  "deleted_store = \<lparr>users = [alice, bob], messages = [deleted_hello]\<rparr>"

definition hi_row :: message where
  \<comment> \<open>the row a send of \<open>hi\<close> from alice to bob inserts at time 5 under the id \<open>fresh_id\<close>\<close>
  "hi_row = hello\<lparr>msg_id := fresh_id, content := ''hi'', created_at := 5\<rparr>"

definition hi_effects :: "effect list" where
  "hi_effects =
     [Stored hi_row,
      Callback (AckSent (Some ''t1'') (view hi_row ''alice'')),
      Emit ''s-alice'' (MessageSent (Some ''t1'') (view hi_row ''alice'')),
      Emit ''s-bob'' (ReceiveMessage (view hi_row ''alice''))]"

definition padded :: string where
  \<comment> \<open>one letter followed by 5000 spaces\<close>
  "padded = CHR ''a'' # replicate 5000 (CHR '' '')"

definition with_nul :: string where
  \<comment> \<open>a letter, the code unit 0 and a letter\<close>
  "with_nul = [CHR ''a'', CHR 0x00, CHR ''b'']"


section \<open>Reading ids\<close>

lemma uuid_in_empty: "uuid_in [] = None"
  by (simp add: uuid_in_def eval_nat_numeral)

lemma uuid_in_alice: "uuid_in alice_id = Some alice_id"
  by code_simp

lemma uuid_in_bob: "uuid_in bob_id = Some bob_id"
  by code_simp

lemma uuid_in_hello: "uuid_in hello_id = Some hello_id"
  by code_simp

lemma uuid_in_reply: "uuid_in reply_id = Some reply_id"
  by code_simp

lemma uuid_in_upper: "uuid_in ''{B0B00000000040008000-000000000002}'' = Some bob_id"
  by code_simp

lemma uuid_in_malformed: "uuid_in ''not-a-uuid'' = None"
  by code_simp

section \<open>Sending: accepted content\<close>

lemma dropWhile_spaces: "dropWhile is_space (replicate n (CHR '' '')) = []"
  by (induction n) (simp_all add: is_space_def)

lemma trim_letter_spaces:
  assumes "\<not> is_space c"
  shows "trim (c # replicate n (CHR '' '')) = [c]"
proof -
  have "rev (c # replicate n (CHR '' '')) = replicate n (CHR '' '') @ [c]" by simp
  moreover have "dropWhile is_space (replicate n (CHR '' '') @ [c]) = [c]"
    using assms by (simp add: dropWhile_append is_space_def)
  ultimately show ?thesis using assms by (simp add: trim_def)
qed

lemma trim_padded: "trim padded = ''a''"
  unfolding padded_def by (rule trim_letter_spaces) (simp add: is_space_def)

lemma length_padded: "length padded = 5001"
  by (simp add: padded_def)

lemma trim_subset: "set (trim str) \<subseteq> set str"
proof -
  have "set (dropWhile is_space (rev (dropWhile is_space str))) \<subseteq> set (rev (dropWhile is_space str))"
    by (auto dest: set_dropWhileD)
  also have "\<dots> \<subseteq> set str" by (auto dest: set_dropWhileD)
  finally show ?thesis by (simp add: trim_def)
qed

lemma storable_trim: "storable str \<Longrightarrow> storable (trim str)"
  using trim_subset [of str] by (auto simp add: storable_def)

lemma trim_with_nul: "trim with_nul = with_nul"
  by (simp add: with_nul_def trim_def is_space_def)

text \<open>
  C1, as stated, fails twice. A content of one letter followed by 5000 spaces trims to
  length 1, the receiver exists, and yet the handler rejects it as too long, because the
  length guard reads the content before trimming. A content of three code units, the
  middle one 0, passes every guard, the database refuses it, and the handler answers that
  it failed to send. Nothing is stored either time.
\<close>

theorem send_padded_rejected:
  "0 < length (trim padded) \<and> length (trim padded) \<le> 5000
   \<and> uuid_in bob_id = Some bob_id \<and> bob_id \<in> user_id ` set (users empty_store)
   \<and> send_message alice_socket both_online (Some bob_id) (Some padded) (Some ''t1'') True 5 fresh_id empty_store
       = (empty_store,
          [Callback (AckError (Some ''t1'') ''Message too long (max 5000 characters)''),
           Emit ''s-alice'' (MessageError (Some ''t1'') ''Message too long (max 5000 characters)'')])
   \<and> 0 < length (trim with_nul) \<and> length (trim with_nul) \<le> 5000
   \<and> send_message alice_socket both_online (Some bob_id) (Some with_nul) (Some ''t1'') True 5 fresh_id empty_store
       = (empty_store,
          [Callback (AckError (Some ''t1'') ''Failed to send message''),
           Emit ''s-alice'' (MessageError (Some ''t1'') ''Failed to send message'')])"
proof -
  have ne: "padded \<noteq> []" by (simp add: padded_def)
  have known: "bob_id \<in> user_id ` set (users empty_store)"
    by (simp add: empty_store_def alice_def bob_def)
  have long: "send_message alice_socket both_online (Some bob_id) (Some padded) (Some ''t1'') True 5 fresh_id empty_store
       = (empty_store,
          [Callback (AckError (Some ''t1'') ''Message too long (max 5000 characters)''),
           Emit ''s-alice'' (MessageError (Some ''t1'') ''Message too long (max 5000 characters)'')])"
    using ne by (simp add: send_message_def trim_padded length_padded reject_def call_def
        alice_socket_def)
  have nul: "send_message alice_socket both_online (Some bob_id) (Some with_nul) (Some ''t1'') True 5 fresh_id empty_store
       = (empty_store,
          [Callback (AckError (Some ''t1'') ''Failed to send message''),
           Emit ''s-alice'' (MessageError (Some ''t1'') ''Failed to send message'')])"
    by (simp add: send_message_def trim_with_nul select_user_def insert_message_def uuid_in_bob
        storable_def reject_def call_def alice_socket_def empty_store_def alice_def bob_def)
      (simp add: with_nul_def)
  have sizes: "0 < length (trim padded) \<and> length (trim padded) \<le> 5000
      \<and> 0 < length (trim with_nul) \<and> length (trim with_nul) \<le> 5000"
    by (simp add: trim_padded trim_with_nul) (simp add: with_nul_def)
  from sizes uuid_in_bob known long nul show ?thesis by (intro conjI) simp_all
qed

text \<open>
  C1, amended. When the trimmed content is not empty, the content as received has at most
  5000 characters and no code unit 0, and the receiver id is the text of a uuid that is the
  id of a row of \<open>users\<close>, \<open>send_message\<close> appends exactly one row to \<open>messages\<close>,
  whose content is the trimmed input, and the sender's acknowledgement (the callback, when
  there is one, and the \<open>message_sent\<close> event) carries the view of that row, so the same
  trimmed content, together with the caller's \<open>tempId\<close>.
\<close>

theorem send_persists_and_acknowledges:
  assumes "0 < length (trim str)" and "length str \<le> 5000" and "storable str"
    and "uuid_in rid = Some receiver" and "receiver \<in> user_id ` set (users s)"
  shows "\<exists>row. send_message sock connectedUsers (Some rid) (Some str) tempId callback now uuid s
           = (s\<lparr>messages := messages s @ [row]\<rparr>,
              [Stored row]
              @ (if callback then [Callback (AckSent tempId (view row (sock_username sock)))] else [])
              @ [Emit (sock_id sock) (MessageSent tempId (view row (sock_username sock)))]
              @ (case connectedUsers rid of
                   Some recipientSocketId \<Rightarrow>
                     if recipientSocketId \<noteq> []
                     then [Emit recipientSocketId (ReceiveMessage (view row (sock_username sock)))]
                     else []
                 | None \<Rightarrow> []))
         \<and> msg_id row = uuid \<and> sender_id row = userId sock \<and> receiver_id row = receiver
         \<and> content row = trim str \<and> created_at row = now
         \<and> v_content (view row (sock_username sock)) = trim str"
proof -
  define row where
    "row = \<lparr>msg_id = uuid, sender_id = userId sock, receiver_id = receiver, content = trim str,
            created_at = now, is_read = False, read_at = None,
            is_deleted = False, deleted_at = None,
            is_edited = False, edited_at = None, original_content = None\<rparr>"
  from assms(1) have nonempty: "str \<noteq> []" by (auto simp add: trim_def)
  from assms(4) have rid: "rid \<noteq> []" using uuid_in_empty by auto
  from assms(4,5) have found: "select_user s rid = Inr (filter (\<lambda>r. user_id r = receiver) (users s))"
    and some: "filter (\<lambda>r. user_id r = receiver) (users s) \<noteq> []"
    by (auto simp add: select_user_def filter_empty_conv)
  have ins: "insert_message (userId sock) rid (trim str) now uuid s
               = Inr (row, s\<lparr>messages := messages s @ [row]\<rparr>)"
    using assms(3,4) by (simp add: insert_message_def row_def Let_def storable_trim)
  have run: "send_message sock connectedUsers (Some rid) (Some str) tempId callback now uuid s
           = (s\<lparr>messages := messages s @ [row]\<rparr>,
              [Stored row]
              @ (if callback then [Callback (AckSent tempId (view row (sock_username sock)))] else [])
              @ [Emit (sock_id sock) (MessageSent tempId (view row (sock_username sock)))]
              @ (case connectedUsers rid of
                   Some recipientSocketId \<Rightarrow>
                     if recipientSocketId \<noteq> []
                     then [Emit recipientSocketId (ReceiveMessage (view row (sock_username sock)))]
                     else []
                 | None \<Rightarrow> []))"
    using nonempty rid some assms(1,2)
    by (simp add: send_message_def found ins call_def js_String_def Let_def)
  have fields: "msg_id row = uuid \<and> sender_id row = userId sock \<and> receiver_id row = receiver
         \<and> content row = trim str \<and> created_at row = now
         \<and> v_content (view row (sock_username sock)) = trim str"
    by (simp add: row_def view_def)
  from run fields show ?thesis by blast
qed

theorem send_persists_and_acknowledges_witness:
  "0 < length (trim '' hi '') \<and> length '' hi '' \<le> 5000 \<and> storable '' hi ''
   \<and> uuid_in bob_id = Some bob_id \<and> bob_id \<in> user_id ` set (users empty_store)
   \<and> (\<exists>row. send_message alice_socket both_online (Some bob_id) (Some '' hi '') (Some ''t1'') True 5 fresh_id empty_store
           = (empty_store\<lparr>messages := messages empty_store @ [row]\<rparr>,
              [Stored row]
              @ (if True then [Callback (AckSent (Some ''t1'') (view row (sock_username alice_socket)))] else [])
              @ [Emit (sock_id alice_socket) (MessageSent (Some ''t1'') (view row (sock_username alice_socket)))]
              @ (case both_online bob_id of
                   Some recipientSocketId \<Rightarrow>
                     if recipientSocketId \<noteq> []
                     then [Emit recipientSocketId (ReceiveMessage (view row (sock_username alice_socket)))]
                     else []
                 | None \<Rightarrow> []))
         \<and> msg_id row = fresh_id \<and> sender_id row = userId alice_socket \<and> receiver_id row = bob_id
         \<and> content row = trim '' hi '' \<and> created_at row = 5
         \<and> v_content (view row (sock_username alice_socket)) = trim '' hi '')"
proof -
  have h1: "0 < length (trim '' hi '')" by (simp add: trim_def is_space_def)
  have h2: "length '' hi '' \<le> 5000" by simp
  have h3: "storable '' hi ''" by (simp add: storable_def)
  have h5: "bob_id \<in> user_id ` set (users empty_store)"
    by (simp add: empty_store_def alice_def bob_def)
  note run = send_persists_and_acknowledges [OF h1 h2 h3 uuid_in_bob h5,
      where sock = alice_socket and connectedUsers = both_online and tempId = "Some ''t1''"
        and callback = True and now = 5 and uuid = fresh_id]
  from h1 h2 h3 uuid_in_bob h5 run show ?thesis by (intro conjI)
qed


section \<open>Rejected sends\<close>

text \<open>
  C8. A \<open>send_message\<close> whose content is missing, empty, blank after trimming, or longer
  than 5000 characters leaves the store as it was, writes no row, and answers with one
  error that carries the caller's \<open>tempId\<close>: through the callback when there is one, and
  as a \<open>message_error\<close> event on the caller's own socket.
\<close>

theorem send_invalid_content_rejected:
  assumes "case content_opt of None \<Rightarrow> True
           | Some text \<Rightarrow> length (trim text) = 0 \<or> 5000 < length text"
  shows "\<exists>msg. send_message sock connectedUsers receiverId content_opt tempId callback now uuid s
           = (s, (if callback then [Callback (AckError tempId msg)] else [])
                 @ [Emit (sock_id sock) (MessageError tempId msg)])"
proof (cases content_opt)
  case None
  then show ?thesis
    by (cases receiverId) (simp_all add: send_message_def reject_def call_def)
next
  case (Some str)
  with assms have bad: "length (trim str) = 0 \<or> 5000 < length str" by simp
  show ?thesis
  proof (cases receiverId)
    case None
    with Some show ?thesis by (simp add: send_message_def reject_def call_def)
  next
    case (Some rid)
    with \<open>content_opt = Some str\<close> bad show ?thesis
      by (auto simp add: send_message_def reject_def call_def)
  qed
qed

theorem send_invalid_content_rejected_witness:
  "(case Some ''   '' of None \<Rightarrow> True
    | Some str \<Rightarrow> length (trim str) = 0 \<or> 5000 < length str)
   \<and> (\<exists>msg. send_message alice_socket both_online (Some bob_id) (Some ''   '') (Some ''t1'') True 5 fresh_id empty_store
           = (empty_store, (if True then [Callback (AckError (Some ''t1'') msg)] else [])
                 @ [Emit (sock_id alice_socket) (MessageError (Some ''t1'') msg)]))"
proof -
  have h: "case Some ''   '' of None \<Rightarrow> True
           | Some str \<Rightarrow> length (trim str) = 0 \<or> 5000 < length str"
    by (simp add: trim_def is_space_def)
  from h send_invalid_content_rejected [OF h] show ?thesis by (intro conjI)
qed


section \<open>Sending: persistence comes first\<close>

lemma reject_no_delivery: "e \<in> set (reject sock callback tempId msg) \<Longrightarrow> \<not> is_delivery e"
  by (auto simp add: reject_def call_def split: if_splits)

lemma send_message_cases:
  "(\<exists>msg. send_message sock connectedUsers receiverId content_opt tempId callback now uuid s
            = (s, reject sock callback tempId msg))
   \<or> (\<exists>row rest. send_message sock connectedUsers receiverId content_opt tempId callback now uuid s
            = (s\<lparr>messages := messages s @ [row]\<rparr>, Stored row # rest))"
  by (auto simp add: send_message_def insert_message_def Let_def
      split: option.splits sum.splits if_splits)

text \<open>
  C3. In every run of \<open>send_message\<close>, each delivery effect (the acknowledgement of the
  sent message through the callback or \<open>message_sent\<close>, and the push
  \<open>receive_message\<close>) comes after the insertion of a row that is in the store the run
  leaves behind: no acknowledgement and no push precedes persistence.
\<close>

theorem send_persistence_first:
  assumes "send_message sock connectedUsers receiverId content_opt tempId callback now uuid s
             = (s', effs)"
  shows "\<forall>i<length effs. is_delivery (effs ! i)
           \<longrightarrow> (\<exists>j<i. \<exists>row. effs ! j = Stored row \<and> row \<in> set (messages s'))"
proof (intro allI impI)
  fix i
  assume i: "i < length effs" and d: "is_delivery (effs ! i)"
  from send_message_cases [of sock connectedUsers receiverId content_opt tempId callback now uuid s]
  show "\<exists>j<i. \<exists>row. effs ! j = Stored row \<and> row \<in> set (messages s')"
  proof (elim disjE exE)
    fix msg
    assume "send_message sock connectedUsers receiverId content_opt tempId callback now uuid s
              = (s, reject sock callback tempId msg)"
    with assms have "effs = reject sock callback tempId msg" by simp
    with i have "effs ! i \<in> set (reject sock callback tempId msg)" by simp
    with d show ?thesis using reject_no_delivery by blast
  next
    fix row rest
    assume "send_message sock connectedUsers receiverId content_opt tempId callback now uuid s
              = (s\<lparr>messages := messages s @ [row]\<rparr>, Stored row # rest)"
    with assms have s': "s' = s\<lparr>messages := messages s @ [row]\<rparr>" and effs: "effs = Stored row # rest"
      by simp_all
    from d effs have "i \<noteq> 0" by (cases i) auto
    moreover from effs have "effs ! 0 = Stored row" by simp
    moreover from s' have "row \<in> set (messages s')" by simp
    ultimately show ?thesis by blast
  qed
qed

theorem send_persistence_first_witness:
  "send_message alice_socket both_online (Some bob_id) (Some ''hi'') (Some ''t1'') True 5 fresh_id empty_store
     = (empty_store\<lparr>messages := [hi_row]\<rparr>, hi_effects)
   \<and> is_delivery (hi_effects ! 3)
   \<and> (\<exists>j<3. \<exists>row. hi_effects ! j = Stored row
                \<and> row \<in> set (messages (empty_store\<lparr>messages := [hi_row]\<rparr>)))"
proof -
  have run: "send_message alice_socket both_online (Some bob_id) (Some ''hi'') (Some ''t1'') True 5 fresh_id empty_store
     = (empty_store\<lparr>messages := [hi_row]\<rparr>, hi_effects)"
    by (simp add: send_message_def insert_message_def select_user_def uuid_in_bob storable_def
        call_def js_String_def trim_def is_space_def empty_store_def alice_def bob_def
        alice_socket_def both_online_def hello_def hi_row_def hi_effects_def Let_def)
  have len: "3 < length hi_effects" and push: "is_delivery (hi_effects ! 3)"
    by (simp_all add: hi_effects_def)
  from send_persistence_first [OF run] len push
  have "\<exists>j<3. \<exists>row. hi_effects ! j = Stored row
                \<and> row \<in> set (messages (empty_store\<lparr>messages := [hi_row]\<rparr>))"
    by blast
  with run push show ?thesis by (intro conjI)
qed


section \<open>Read receipts\<close>

lemma update_read_twice:
  assumes "update_read now ids reader s = Inr s1"
  shows "update_read later ids reader s1 = Inr s1"
proof -
  from assms obtain keys where keys: "uuid_array_in ids = Some keys"
    and s1: "s1 = s\<lparr>messages :=
                  map (\<lambda>m. if msg_id m \<in> set keys \<and> receiver_id m = reader \<and> is_read m = False
                           then m\<lparr>is_read := True, read_at := Some now\<rparr> else m)
                      (messages s)\<rparr>"
    by (auto simp add: update_read_def split: option.splits)
  have "map ((\<lambda>m. if msg_id m \<in> set keys \<and> receiver_id m = reader \<and> is_read m = False
                  then m\<lparr>is_read := True, read_at := Some later\<rparr> else m)
             \<circ> (\<lambda>m. if msg_id m \<in> set keys \<and> receiver_id m = reader \<and> is_read m = False
                  then m\<lparr>is_read := True, read_at := Some now\<rparr> else m)) (messages s)
        = map (\<lambda>m. if msg_id m \<in> set keys \<and> receiver_id m = reader \<and> is_read m = False
                  then m\<lparr>is_read := True, read_at := Some now\<rparr> else m) (messages s)"
    by (rule map_cong) auto
  then show ?thesis by (simp add: update_read_def keys s1)
qed

lemma update_read_refused:
  "uuid_array_in ids = None \<Longrightarrow> update_read now ids reader s = Inl InvalidUuid"
  by (simp add: update_read_def)

lemma update_read_no_ids: "update_read now [] reader s = Inr s"
  by (simp add: update_read_def uuid_array_in_def)

lemma mark_read_store:
  "fst (mark_read sock connectedUsers (Some ids) senderId now s)
     = (case update_read now ids (userId sock) s of Inl e \<Rightarrow> s | Inr s' \<Rightarrow> s')"
  by (cases ids) (simp_all add: mark_read_def update_read_no_ids Let_def split: sum.splits)

lemma rest_mark_read_store:
  "snd (rest_mark_read uid (Some ids) now s)
     = (case update_read now ids uid s of Inl e \<Rightarrow> s | Inr s' \<Rightarrow> s')"
  by (cases ids) (simp_all add: rest_mark_read_def update_read_no_ids Let_def split: sum.splits)

lemma ids_with_malformed: "uuid_array_in [hello_id, ''not-a-uuid''] = None"
  by (simp add: uuid_array_in_def uuid_in_hello uuid_in_malformed)

text \<open>
  C4, as stated, fails when one element of \<open>messageIds\<close> is not the text of a uuid:
  \<open>hello\<close> is unread, addressed to bob and named in the list, and yet bob's
  \<open>mark_read\<close> leaves it unread, because the database refuses the whole update; the
  handler only logs that, and the route answers 500.
\<close>

theorem mark_read_malformed_id_marks_nothing:
  "hello \<in> set (messages chat_store) \<and> msg_id hello \<in> set [hello_id, ''not-a-uuid'']
   \<and> receiver_id hello = userId bob_socket \<and> is_read hello = False
   \<and> mark_read bob_socket both_online (Some [hello_id, ''not-a-uuid'']) (Some alice_id) 50 chat_store
       = (chat_store, [])
   \<and> rest_mark_read (userId bob_socket) (Some [hello_id, ''not-a-uuid'']) 50 chat_store
       = (Reply 500 (Failure ''Failed to mark messages as read''), chat_store)"
  by (simp add: mark_read_def rest_mark_read_def update_read_refused [OF ids_with_malformed]
      chat_store_def hello_def bob_socket_def)

text \<open>
  C4, amended. \<open>mark_read\<close> and the route \<open>PUT /read\<close> leave the same store. When
  every element of \<open>messageIds\<close> is the text of a uuid, they change exactly the rows whose
  id is among the ids named, whose receiver is the reader and whose read flag is still
  false: on those they set the read flag and the one timestamp of the call, and every other
  row and the users stay as they were. When some element is not the text of a uuid, the
  store stays as it was. Invoked again with the same ids, at any later time, they leave
  the store as the first call left it, so every \<open>read_at\<close> of the first call stands.
\<close>

theorem mark_read_exact_and_idempotent:
  assumes "mark_read sock connectedUsers (Some ids) senderId now s = (s1, effs)"
    and "rest_mark_read (userId sock) (Some ids) now s = (rep, s2)"
  shows "s2 = s1
     \<and> users s1 = users s
     \<and> (\<forall>keys. uuid_array_in ids = Some keys \<longrightarrow>
          messages s1
            = map (\<lambda>m. if msg_id m \<in> set keys \<and> receiver_id m = userId sock \<and> \<not> is_read m
                       then m\<lparr>is_read := True, read_at := Some now\<rparr> else m)
                  (messages s))
     \<and> (uuid_array_in ids = None \<longrightarrow> s1 = s)
     \<and> fst (mark_read sock connectedUsers (Some ids) senderId later s1) = s1
     \<and> snd (rest_mark_read (userId sock) (Some ids) later s1) = s1
     \<and> map read_at (messages (fst (mark_read sock connectedUsers (Some ids) senderId later s1)))
         = map read_at (messages s1)"
proof -
  from assms(1) have s1: "s1 = (case update_read now ids (userId sock) s of Inl e \<Rightarrow> s | Inr s' \<Rightarrow> s')"
    using mark_read_store [of sock connectedUsers ids senderId now s] by simp
  from assms(2) have s2: "s2 = (case update_read now ids (userId sock) s of Inl e \<Rightarrow> s | Inr s' \<Rightarrow> s')"
    using rest_mark_read_store [of "userId sock" ids now s] by simp
  have usr: "users s1 = users s"
    by (auto simp add: s1 update_read_def split: option.splits)
  have rows: "messages s1
            = map (\<lambda>m. if msg_id m \<in> set keys \<and> receiver_id m = userId sock \<and> \<not> is_read m
                       then m\<lparr>is_read := True, read_at := Some now\<rparr> else m)
                  (messages s)" if "uuid_array_in ids = Some keys" for keys
    using that by (simp add: s1 update_read_def)
  have refused: "s1 = s" if "uuid_array_in ids = None"
    using that by (simp add: s1 update_read_def)
  have fixed: "(case update_read later ids (userId sock) s1 of Inl e \<Rightarrow> s1 | Inr s' \<Rightarrow> s') = s1"
  proof (cases "update_read now ids (userId sock) s")
    case (Inl e)
    then have "uuid_array_in ids = None" by (auto simp add: update_read_def split: option.splits)
    then show ?thesis by (simp add: update_read_refused)
  next
    case (Inr s')
    with s1 have "update_read now ids (userId sock) s = Inr s1" by simp
    then show ?thesis by (simp add: update_read_twice)
  qed
  have again: "fst (mark_read sock connectedUsers (Some ids) senderId later s1) = s1"
    by (simp add: mark_read_store fixed)
  have rest_again: "snd (rest_mark_read (userId sock) (Some ids) later s1) = s1"
    by (simp add: rest_mark_read_store fixed)
  from s1 s2 usr rows refused again rest_again show ?thesis by simp
qed

theorem mark_read_exact_and_idempotent_witness:
  "mark_read bob_socket both_online (Some [hello_id, reply_id]) (Some alice_id) 50 chat_store
     = (read_store, [Emit ''s-alice'' (MessagesRead [hello_id, reply_id] 50 bob_id)])
   \<and> rest_mark_read (userId bob_socket) (Some [hello_id, reply_id]) 50 chat_store
     = (Reply 200 (ReadAt 50), read_store)
   \<and> uuid_array_in [hello_id, reply_id] = Some [hello_id, reply_id]
   \<and> fst (mark_read bob_socket both_online (Some [hello_id, reply_id]) (Some alice_id) 60 read_store)
       = read_store
   \<and> snd (rest_mark_read (userId bob_socket) (Some [hello_id, reply_id]) 60 read_store) = read_store
   \<and> map read_at (messages read_store) = [Some 50, None]"
proof -
  have keys: "uuid_array_in [hello_id, reply_id] = Some [hello_id, reply_id]"
    by (simp add: uuid_array_in_def uuid_in_hello uuid_in_reply)
  have h1: "mark_read bob_socket both_online (Some [hello_id, reply_id]) (Some alice_id) 50 chat_store
     = (read_store, [Emit ''s-alice'' (MessagesRead [hello_id, reply_id] 50 bob_id)])"
    by (simp add: mark_read_def update_read_def keys chat_store_def read_store_def hello_def
        reply_msg_def bob_socket_def both_online_def Let_def)
  have h2: "rest_mark_read (userId bob_socket) (Some [hello_id, reply_id]) 50 chat_store
     = (Reply 200 (ReadAt 50), read_store)"
    by (simp add: rest_mark_read_def update_read_def keys chat_store_def read_store_def hello_def
        reply_msg_def bob_socket_def Let_def)
  note r = mark_read_exact_and_idempotent [OF h1 h2, of 60]
  from r have again: "fst (mark_read bob_socket both_online (Some [hello_id, reply_id]) (Some alice_id) 60 read_store)
       = read_store"
    by blast
  from r have rest_again:
    "snd (rest_mark_read (userId bob_socket) (Some [hello_id, reply_id]) 60 read_store) = read_store"
    by blast
  have stamps: "map read_at (messages read_store) = [Some 50, None]"
    by (simp add: read_store_def reply_msg_def)
  from h1 h2 keys again rest_again stamps show ?thesis by (intro conjI)
qed





section \<open>Editing and deleting\<close>

text \<open>
  The live \<open>edit_message\<close> never writes \<open>original_content\<close>, whatever the message and
  the edit.
\<close>

lemma edit_message_original:
  "map original_content (messages (fst (edit_message sock connectedUsers messageId content_opt receiverId now s)))
     = map original_content (messages s)"
proof (cases "update_content content_opt messageId (userId sock) now s")
  case (Inl e)
  then show ?thesis by (simp add: edit_message_def)
next
  case (Inr res)
  obtain rows s' where res: "res = (rows, s')" by (cases res)
  from Inr res have "map original_content (messages s') = map original_content (messages s)"
    by (auto simp add: update_content_def Let_def o_def split: option.splits if_splits)
  with Inr res show ?thesis by (simp add: edit_message_def)
qed

text \<open>
  C2 at a concrete message. \<open>hello\<close> has content \<open>v1\<close> and was never edited. Edited to
  \<open>v2\<close> and then to \<open>v3\<close> by its sender over the live channel, its
  \<open>original_content\<close> is still unset, where the claim wants \<open>v1\<close>; the same two edits
  through the route \<open>PUT /message/:messageId\<close> leave \<open>original_content = v1\<close>.
\<close>

theorem socket_edits_leave_original_unset:
  "original_content hello = None \<and> content hello = ''v1''
   \<and> fst (edit_message alice_socket both_online (Some hello_id) (Some ''v3'') (Some bob_id) 41
        (fst (edit_message alice_socket both_online (Some hello_id) (Some ''v2'') (Some bob_id) 40
               chat_store)))
       = chat_store\<lparr>messages :=
           [hello\<lparr>content := ''v3'', is_edited := True, edited_at := Some 41,
                  original_content := None\<rparr>, reply_msg]\<rparr>
   \<and> snd (rest_edit_message alice_id hello_id (Some ''v3'') 41
        (snd (rest_edit_message alice_id hello_id (Some ''v2'') 40 chat_store)))
       = chat_store\<lparr>messages :=
           [hello\<lparr>content := ''v3'', is_edited := True, edited_at := Some 41,
                  original_content := Some ''v1''\<rparr>, reply_msg]\<rparr>"
  by (simp add: edit_message_def update_content_def rest_edit_message_def select_message_def
      update_edit_def uuid_in_hello storable_def trim_def is_space_def
      chat_store_def hello_def reply_msg_def alice_socket_def both_online_def js_String_def Let_def)

text \<open>
  C5 at a concrete message. \<open>deleted_hello\<close> is soft-deleted. The live \<open>edit_message\<close>
  of its sender overwrites its content, marks it edited and announces the update to both
  sides, where the claim wants a state error and no mutation; the route
  \<open>PUT /message/:messageId\<close> answers 400 and leaves the store as it was.
\<close>

theorem socket_edit_overwrites_deleted:
  "is_deleted deleted_hello \<and> sender_id deleted_hello = userId alice_socket
   \<and> edit_message alice_socket both_online (Some hello_id) (Some ''v2'') (Some bob_id) 40 deleted_store
       = (deleted_store\<lparr>messages :=
            [deleted_hello\<lparr>content := ''v2'', is_edited := True, edited_at := Some 40\<rparr>]\<rparr>,
          [Emit ''s-bob'' (MessageUpdated (Some hello_id) (Some ''v2'') True alice_id),
           Emit ''s-alice'' (MessageUpdated (Some hello_id) (Some ''v2'') True alice_id)])
   \<and> rest_edit_message alice_id hello_id (Some ''v2'') 40 deleted_store
       = (Reply 400 (Failure ''Cannot edit a deleted message''), deleted_store)"
  by (simp add: edit_message_def update_content_def rest_edit_message_def select_message_def
      uuid_in_hello storable_def trim_def is_space_def
      deleted_store_def deleted_hello_def hello_def alice_socket_def both_online_def js_String_def
      Let_def)

text \<open>
  C6 at a concrete message. \<open>hello\<close> is alice's. Bob's \<open>edit_message\<close> over the live
  channel leaves the store as it was, and it reports nothing: no event and no error reaches
  the caller, where the claim wants an authorization error. The routes answer 403 to the
  same edit and to the delete.
\<close>

theorem socket_edit_by_stranger_silent:
  "hello \<in> set (messages chat_store) \<and> sender_id hello \<noteq> userId bob_socket
   \<and> edit_message bob_socket both_online (Some hello_id) (Some ''mine now'') (Some alice_id) 40
        chat_store
       = (chat_store, [])
   \<and> rest_edit_message bob_id hello_id (Some ''mine now'') 40 chat_store
       = (Reply 403 (Failure ''You can only edit your own messages''), chat_store)
   \<and> rest_delete_message bob_id hello_id 40 chat_store
       = (Reply 403 (Failure ''You can only delete your own messages''), chat_store)"
  by (simp add: edit_message_def update_content_def rest_edit_message_def rest_delete_message_def
      select_message_def uuid_in_hello storable_def trim_def is_space_def
      chat_store_def hello_def reply_msg_def bob_socket_def Let_def)

text \<open>
  What does hold on every path: for a message of the store (ids being unique), named by a
  text of its id, and a caller who is not its sender, the route
  \<open>DELETE /message/:messageId\<close> answers 403; the route \<open>PUT /message/:messageId\<close>
  answers 403 when the new content is not blank, and 400 when it is missing or blank,
  since the content is validated first; the live \<open>edit_message\<close> emits nothing. All
  three leave the whole store, and so the message row, as it was.
\<close>

lemma select_by_key:
  assumes "distinct (map msg_id ms)" and "m \<in> set ms"
  shows "filter (\<lambda>x. msg_id x = msg_id m) ms = [m]"
  using assms
proof (induction ms)
  case Nil
  then show ?case by simp
next
  case (Cons a ms)
  show ?case
  proof (cases "a = m")
    case True
    with Cons.prems have "msg_id m \<notin> msg_id ` set ms" by simp
    then have "\<forall>x\<in>set ms. msg_id x \<noteq> msg_id m" by (metis imageI)
    then have "filter (\<lambda>x. msg_id x = msg_id m) ms = []" by (simp add: filter_empty_conv)
    with True show ?thesis by simp
  next
    case False
    with Cons.prems have "m \<in> set ms" and "msg_id a \<noteq> msg_id m" and "distinct (map msg_id ms)"
      by auto
    with Cons.IH show ?thesis by simp
  qed
qed

lemma key_determines_row:
  assumes "distinct (map msg_id ms)" and "m \<in> set ms" and "x \<in> set ms" and "msg_id x = msg_id m"
  shows "x = m"
  using assms by (meson distinct_map inj_on_def)

lemma non_sender_cannot_mutate:
  assumes "m \<in> set (messages s)" and "distinct (map msg_id (messages s))"
    and "sender_id m \<noteq> uid" and "userId sock = uid" and "uuid_in mid = Some (msg_id m)"
  shows "rest_delete_message uid mid now s
           = (Reply 403 (Failure ''You can only delete your own messages''), s)
     \<and> rest_edit_message uid mid content_opt now s
           = (if (case content_opt of None \<Rightarrow> True | Some str \<Rightarrow> length (trim str) = 0)
              then Reply 400 (Failure ''Message content is required'')
              else Reply 403 (Failure ''You can only edit your own messages''), s)
     \<and> edit_message sock connectedUsers (Some mid) content_opt receiverId now s = (s, [])"
proof -
  from assms(1,2,5) have sel: "select_message s mid = Inr [m]"
    by (simp add: select_message_def select_by_key)
  from sel assms(3) have del: "rest_delete_message uid mid now s
           = (Reply 403 (Failure ''You can only delete your own messages''), s)"
    by (simp add: rest_delete_message_def)
  have blank: "trim [] = []" by (simp add: trim_def)
  from sel assms(3) have edit: "rest_edit_message uid mid content_opt now s
           = (if (case content_opt of None \<Rightarrow> True | Some str \<Rightarrow> length (trim str) = 0)
              then Reply 400 (Failure ''Message content is required'')
              else Reply 403 (Failure ''You can only edit your own messages''), s)"
    by (cases content_opt) (auto simp add: rest_edit_message_def blank)
  have nohit: "\<forall>x\<in>set (messages s). \<not> (Some (msg_id x) = Some (msg_id m) \<and> sender_id x = userId sock)"
    using key_determines_row [OF assms(2) assms(1)] assms(3,4) by auto
  then have rows: "filter (\<lambda>x. Some (msg_id x) = Some (msg_id m) \<and> sender_id x = userId sock) (messages s) = []"
    by (simp add: filter_empty_conv)
  from nohit have same: "map (\<lambda>x. if Some (msg_id x) = Some (msg_id m) \<and> sender_id x = userId sock
                      then x\<lparr>content := c, is_edited := True, edited_at := Some now\<rparr> else x) (messages s)
                  = messages s" for c
    by (intro map_idI) auto
  have sock: "edit_message sock connectedUsers (Some mid) content_opt receiverId now s = (s, [])"
  proof (cases content_opt)
    case None
    with rows assms(5) show ?thesis by (simp add: edit_message_def update_content_def Let_def)
  next
    case (Some str)
    with rows same [of str] assms(5) show ?thesis
      by (simp add: edit_message_def update_content_def Let_def)
  qed
  from del edit sock show ?thesis by (intro conjI)
qed


section \<open>History pages\<close>

lemma history_query_length: "length (history_query s uid pid before lim) \<le> lim"
  by (simp add: history_query_def)

lemma history_query_descending:
  "sorted (map (\<lambda>r. created_at (fst r)) (rev (history_query s uid pid before lim)))"
proof -
  define k :: "message \<times> string \<Rightarrow> nat" where "k = (\<lambda>r. created_at (fst r))"
  define ys where "ys = sort_key k
       (filter (\<lambda>r. ((sender_id (fst r) = uid \<and> receiver_id (fst r) = pid)
                        \<or> (sender_id (fst r) = pid \<and> receiver_id (fst r) = uid))
                     \<and> (case before of None \<Rightarrow> True | Some b \<Rightarrow> created_at (fst r) < b))
               (joined s))"
  have q: "history_query s uid pid before lim = take lim (rev ys)"
    by (simp add: history_query_def ys_def k_def)
  have "rev (take lim (rev ys)) = drop (length ys - lim) ys"
    by (simp add: rev_take)
  moreover have "sorted (map k ys)" unfolding ys_def by (rule sorted_sort_key)
  then have "sorted (map k (drop (length ys - lim) ys))"
    by (simp add: drop_map [symmetric])
  ultimately show ?thesis by (simp add: q k_def)
qed

lemma page_of_messages:
  "map v_createdAt (page_messages (page_of rows lim)) = map (\<lambda>r. created_at (fst r)) (rev rows)"
  by (simp add: page_of_def Let_def rev_map view_def o_def)

text \<open>
  C7, as stated, fails at limit 0, on the live channel and on the route: the query returns
  no row, \<open>hasMore\<close> is true because 0 rows is exactly the limit, and \<open>nextCursor\<close> is
  \<open>undefined\<close>, not the creation time of a returned message, for there is none.
\<close>

theorem get_history_limit_zero:
  "get_history alice_socket (Some bob_id) (Some 0) None True chat_store
     = [Callback (AckHistory (Page [] True CursorUndefined))]
   \<and> rest_get_messages alice_id bob_id (Some 0) None chat_store
     = Reply 200 (History (Page [] True CursorUndefined) bob_id ''bob'')"
  by (simp add: get_history_def rest_get_messages_def select_history_def history_query_def
      page_of_def call_def select_user_def uuid_in_bob chat_store_def alice_def bob_def
      alice_socket_def Let_def)

text \<open>
  C7, amended. For a request with limit \<open>lim\<close> (50 when none is given) and a partner id
  given as the text of a uuid, \<open>get_history\<close> and, when the partner exists, the route
  \<open>GET /:partnerId\<close> answer with the same page; for a partner id that is not empty and
  not the text of a uuid, \<open>get_history\<close> answers that it failed to fetch the history.
  The page has as many messages as the query returned rows, at most \<open>lim\<close>, in ascending
  order of creation time; \<open>hasMore\<close> holds exactly when the query returned \<open>lim\<close>
  rows; when \<open>hasMore\<close> holds and \<open>lim\<close> is positive, \<open>nextCursor\<close> is the creation
  time of the first message of the page, the oldest one returned; when \<open>hasMore\<close> holds
  and \<open>lim\<close> is 0 the page is empty and \<open>nextCursor\<close> is \<open>undefined\<close>; when
  \<open>hasMore\<close> does not hold, \<open>nextCursor\<close> is \<open>null\<close>.
\<close>

theorem history_page_shape:
  assumes "lim = (case limit_opt of None \<Rightarrow> 50 | Some l \<Rightarrow> l)"
    and "rows = history_query s uid partner before lim"
    and "p = page_of rows lim"
    and "userId sock = uid"
  shows "(uuid_in pid = Some partner \<longrightarrow>
            get_history sock (Some pid) limit_opt before callback s
              = (if callback then [Callback (AckHistory p)] else []))
     \<and> (pid \<noteq> [] \<and> uuid_in pid = None \<longrightarrow>
            get_history sock (Some pid) limit_opt before callback s
              = (if callback then [Callback (AckFailure ''Failed to fetch message history'')]
                 else []))
     \<and> (uuid_in pid = Some partner \<and> partner \<in> user_id ` set (users s) \<longrightarrow>
            rest_get_messages uid pid limit_opt before s
              = Reply 200 (History p partner
                             (username (hd (filter (\<lambda>r. user_id r = partner) (users s))))))
     \<and> length (page_messages p) = length rows
     \<and> length (page_messages p) \<le> lim
     \<and> sorted (map v_createdAt (page_messages p))
     \<and> (hasMore p \<longleftrightarrow> length rows = lim)
     \<and> (hasMore p \<and> 0 < lim \<longrightarrow>
           page_messages p \<noteq> []
           \<and> nextCursor p = CursorAt (v_createdAt (hd (page_messages p)))
           \<and> (\<forall>m\<in>set (page_messages p). v_createdAt (hd (page_messages p)) \<le> v_createdAt m))
     \<and> (hasMore p \<and> lim = 0 \<longrightarrow> page_messages p = [] \<and> nextCursor p = CursorUndefined)
     \<and> (\<not> hasMore p \<longrightarrow> nextCursor p = CursorNull)"
proof -
  have sock: "get_history sock (Some pid) limit_opt before callback s
           = (if callback then [Callback (AckHistory p)] else [])"
    if known: "uuid_in pid = Some partner"
  proof -
    from known have "pid \<noteq> []" using uuid_in_empty by auto
    with known assms show ?thesis
      by (simp add: get_history_def select_history_def call_def Let_def)
  qed
  have failed: "get_history sock (Some pid) limit_opt before callback s
           = (if callback then [Callback (AckFailure ''Failed to fetch message history'')] else [])"
    if "pid \<noteq> [] \<and> uuid_in pid = None"
    using that by (simp add: get_history_def select_history_def call_def Let_def)
  have rest: "rest_get_messages uid pid limit_opt before s
           = Reply 200 (History p partner
                          (username (hd (filter (\<lambda>r. user_id r = partner) (users s)))))"
    if known: "uuid_in pid = Some partner \<and> partner \<in> user_id ` set (users s)"
  proof -
    from known obtain first others
      where sel: "filter (\<lambda>r. user_id r = partner) (users s) = first # others"
      by (cases "filter (\<lambda>r. user_id r = partner) (users s)") (auto simp add: filter_empty_conv)
    then have "first \<in> set (filter (\<lambda>r. user_id r = partner) (users s))" by simp
    then have "user_id first = partner" by simp
    with sel known show ?thesis
      using assms(1,2,3)
      by (simp add: rest_get_messages_def select_user_def select_history_def Let_def)
  qed
  have len: "length (page_messages p) = length rows"
    by (simp add: assms(3) page_of_def Let_def)
  have bound: "length (page_messages p) \<le> lim"
    using len history_query_length [of s uid partner before lim] by (simp add: assms(2))
  have asc: "sorted (map v_createdAt (page_messages p))"
    using history_query_descending [of s uid partner before lim]
    by (simp add: assms(2,3) page_of_messages)
  have more: "hasMore p \<longleftrightarrow> length rows = lim"
    by (simp add: assms(3) page_of_def Let_def)
  have full: "page_messages p \<noteq> []
           \<and> nextCursor p = CursorAt (v_createdAt (hd (page_messages p)))
           \<and> (\<forall>m\<in>set (page_messages p). v_createdAt (hd (page_messages p)) \<le> v_createdAt m)"
    if "hasMore p" and "0 < lim"
  proof -
    from that more have ne: "rows \<noteq> []" by auto
    then have msgs: "page_messages p \<noteq> []" using len by auto
    from ne have first: "hd (page_messages p) = view (fst (last rows)) (snd (last rows))"
      by (simp add: assms(3) page_of_def Let_def hd_rev last_map)
    from ne that(1) more have "nextCursor p = CursorAt (created_at (fst (last rows)))"
      by (simp add: assms(3) page_of_def Let_def)
    with first have cur: "nextCursor p = CursorAt (v_createdAt (hd (page_messages p)))"
      by (simp add: view_def)
    have "\<forall>m\<in>set (page_messages p). v_createdAt (hd (page_messages p)) \<le> v_createdAt m"
    proof
      fix m assume m: "m \<in> set (page_messages p)"
      from msgs obtain a as where a: "page_messages p = a # as" by (cases "page_messages p") auto
      with asc have "\<forall>y\<in>set as. v_createdAt a \<le> v_createdAt y" by simp
      with m a show "v_createdAt (hd (page_messages p)) \<le> v_createdAt m" by auto
    qed
    with msgs cur show ?thesis by blast
  qed
  have none: "page_messages p = [] \<and> nextCursor p = CursorUndefined" if "hasMore p" and "lim = 0"
    using that more len by (simp add: assms(3) page_of_def Let_def)
  have last_page: "nextCursor p = CursorNull" if "\<not> hasMore p"
    using that by (simp add: assms(3) page_of_def Let_def)
  from sock failed rest len bound asc more full none last_page show ?thesis by blast
qed

theorem history_page_shape_witness:
  "get_history alice_socket (Some bob_id) (Some 2) None True chat_store
     = [Callback (AckHistory full_page)]
   \<and> rest_get_messages alice_id bob_id (Some 2) None chat_store
     = Reply 200 (History full_page bob_id ''bob'')
   \<and> length (page_messages full_page) = 2
   \<and> sorted (map v_createdAt (page_messages full_page))
   \<and> hasMore full_page
   \<and> nextCursor full_page = CursorAt (v_createdAt (hd (page_messages full_page)))
   \<and> v_createdAt (hd (page_messages full_page)) = 10"
proof -
  have h1: "(2::nat) = (case Some 2 of None \<Rightarrow> 50 | Some l \<Rightarrow> l)" by simp
  have h2: "[(reply_msg, ''bob''), (hello, ''alice'')]
              = history_query chat_store alice_id bob_id None 2"
    by (simp add: history_query_def joined_def chat_store_def alice_def bob_def hello_def
        reply_msg_def)
  have h3: "full_page = page_of [(reply_msg, ''bob''), (hello, ''alice'')] 2"
    by (simp add: full_page_def page_of_def hello_def Let_def)
  have h5: "userId alice_socket = alice_id" by (simp add: alice_socket_def)
  have h6: "bob_id \<in> user_id ` set (users chat_store)"
    by (simp add: chat_store_def alice_def bob_def)
  note r = history_page_shape [OF h1 h2 h3 h5, of bob_id True]
  have partner: "username (hd (filter (\<lambda>r. user_id r = bob_id) (users chat_store))) = ''bob''"
    by (simp add: chat_store_def alice_def bob_def)
  have more: "hasMore full_page" and two: "(0::nat) < 2" by (simp_all add: full_page_def)
  from r uuid_in_bob have a: "get_history alice_socket (Some bob_id) (Some 2) None True chat_store
     = [Callback (AckHistory full_page)]"
    by simp
  from r uuid_in_bob h6 have "rest_get_messages alice_id bob_id (Some 2) None chat_store
     = Reply 200 (History full_page bob_id
                    (username (hd (filter (\<lambda>r. user_id r = bob_id) (users chat_store)))))"
    by blast
  with partner have b: "rest_get_messages alice_id bob_id (Some 2) None chat_store
     = Reply 200 (History full_page bob_id ''bob'')"
    by simp
  from r have c: "length (page_messages full_page) = 2" by simp
  from r have d: "sorted (map v_createdAt (page_messages full_page))" by blast
  from r more two
  have e: "nextCursor full_page = CursorAt (v_createdAt (hd (page_messages full_page)))"
    by blast
  have f: "v_createdAt (hd (page_messages full_page)) = 10"
    by (simp add: full_page_def view_def hello_def)
  from a b c d more e f show ?thesis by (intro conjI)
qed


section \<open>Announcing a connection\<close>

lemma broadcast_reaches:
  "sid \<in> set live \<Longrightarrow> sid \<noteq> sock_id sock \<Longrightarrow> Emit sid e \<in> set (broadcast_emit sock live e)"
  by (simp add: broadcast_emit_def)

lemma broadcast_only_others:
  "x \<in> set (broadcast_emit sock live e) \<Longrightarrow> \<exists>sid. sid \<noteq> sock_id sock \<and> x = Emit sid e"
  by (auto simp add: broadcast_emit_def)

lemma on_connection_registry_live:
  assumes "ran connectedUsers \<subseteq> set live" and "sock_id sock \<in> set live"
  shows "ran (fst (on_connection sock now live connectedUsers)) \<subseteq> set live"
proof
  fix sid
  assume "sid \<in> ran (fst (on_connection sock now live connectedUsers))"
  then obtain u where "(connectedUsers(userId sock \<mapsto> sock_id sock)) u = Some sid"
    by (auto simp add: on_connection_def ran_def)
  then have "sid = sock_id sock \<or> connectedUsers u = Some sid"
    by (auto split: if_splits)
  with assms show "sid \<in> set live" by (auto simp add: ran_def)
qed

text \<open>
  C9. When a socket connects and every registered socket id is one of the server's live
  sockets, the effects of the connection handler end with the \<open>connected\<close>
  acknowledgement to the new socket, and before it stand only \<open>user_online\<close> events for
  the new user, addressed to other sockets: one to every socket id other than the new one
  that the registry holds, before or after the new user is registered, and one to every
  other live socket.
\<close>

theorem connect_announces_before_ack:
  assumes "on_connection sock now live connectedUsers = (registry, effs)"
    and "ran connectedUsers \<subseteq> set live"
  shows "\<exists>pre. effs = pre @ [Emit (sock_id sock) (Connected (userId sock) (sock_username sock) now)]
     \<and> (\<forall>u sid. (connectedUsers u = Some sid \<or> registry u = Some sid) \<and> sid \<noteq> sock_id sock
           \<longrightarrow> Emit sid (UserOnline (userId sock) (sock_username sock)) \<in> set pre)
     \<and> (\<forall>sid\<in>set live. sid \<noteq> sock_id sock
           \<longrightarrow> Emit sid (UserOnline (userId sock) (sock_username sock)) \<in> set pre)
     \<and> (\<forall>e\<in>set pre. \<exists>sid. sid \<noteq> sock_id sock
                          \<and> e = Emit sid (UserOnline (userId sock) (sock_username sock)))"
proof -
  define pre where
    "pre = broadcast_emit sock live (UserOnline (userId sock) (sock_username sock))"
  from assms(1) have effs: "effs = pre @ [Emit (sock_id sock) (Connected (userId sock) (sock_username sock) now)]"
    and reg: "registry = connectedUsers(userId sock \<mapsto> sock_id sock)"
    by (simp_all add: on_connection_def pre_def)
  have reached: "Emit sid (UserOnline (userId sock) (sock_username sock)) \<in> set pre"
    if "(connectedUsers u = Some sid \<or> registry u = Some sid) \<and> sid \<noteq> sock_id sock" for u sid
  proof -
    from that reg have "connectedUsers u = Some sid" by (auto split: if_splits)
    then have "sid \<in> ran connectedUsers" by (auto simp add: ran_def)
    with assms(2) have "sid \<in> set live" by auto
    with that show ?thesis unfolding pre_def by (simp add: broadcast_reaches)
  qed
  have everyone: "\<forall>sid\<in>set live. sid \<noteq> sock_id sock
           \<longrightarrow> Emit sid (UserOnline (userId sock) (sock_username sock)) \<in> set pre"
    unfolding pre_def by (simp add: broadcast_reaches)
  have others: "\<forall>e\<in>set pre. \<exists>sid. sid \<noteq> sock_id sock
                          \<and> e = Emit sid (UserOnline (userId sock) (sock_username sock))"
    unfolding pre_def using broadcast_only_others by blast
  from effs reached everyone others show ?thesis by blast
qed

theorem connect_announces_before_ack_witness:
  "on_connection alice_socket 7 [''s-bob'', ''s-alice''] bob_online
     = (bob_online(alice_id \<mapsto> ''s-alice''),
        [Emit ''s-bob'' (UserOnline alice_id ''alice''),
         Emit ''s-alice'' (Connected alice_id ''alice'' 7)])
   \<and> ran bob_online \<subseteq> set [''s-bob'', ''s-alice'']
   \<and> (\<exists>pre. [Emit ''s-bob'' (UserOnline alice_id ''alice''),
              Emit ''s-alice'' (Connected alice_id ''alice'' 7)]
             = pre @ [Emit ''s-alice'' (Connected alice_id ''alice'' 7)]
          \<and> Emit ''s-bob'' (UserOnline alice_id ''alice'') \<in> set pre)"
proof -
  have h1: "on_connection alice_socket 7 [''s-bob'', ''s-alice''] bob_online
     = (bob_online(alice_id \<mapsto> ''s-alice''),
        [Emit ''s-bob'' (UserOnline alice_id ''alice''),
         Emit ''s-alice'' (Connected alice_id ''alice'' 7)])"
    by (simp add: on_connection_def broadcast_emit_def alice_socket_def)
  have h2: "ran bob_online \<subseteq> set [''s-bob'', ''s-alice'']"
    by (simp add: bob_online_def)
  have reg: "bob_online bob_id = Some ''s-bob''" by (simp add: bob_online_def)
  have other: "''s-bob'' \<noteq> sock_id alice_socket" by (simp add: alice_socket_def)
  have who: "userId alice_socket = alice_id" "sock_username alice_socket = ''alice''"
    "sock_id alice_socket = ''s-alice''"
    by (simp_all add: alice_socket_def)
  from connect_announces_before_ack [OF h1 h2] reg other
  have "\<exists>pre. [Emit ''s-bob'' (UserOnline alice_id ''alice''),
              Emit ''s-alice'' (Connected alice_id ''alice'' 7)]
             = pre @ [Emit ''s-alice'' (Connected alice_id ''alice'' 7)]
          \<and> Emit ''s-bob'' (UserOnline alice_id ''alice'') \<in> set pre"
    unfolding who by blast
  with h1 h2 show ?thesis by (intro conjI)
qed



end
